theory Spec2Isabelle
  imports Complex_Main
begin

section \<open>The host objects the integration reads\<close>

text \<open>
  The module \<^verbatim>\<open>custom_components/advanced_pid_controller/__init__.py\<close> reads three
  objects of its host: the state machine (\<^verbatim>\<open>hass.states\<close>), the entity registry
  (\<^verbatim>\<open>er.async_get(hass)\<close>) and the process-wide dictionary \<^verbatim>\<open>hass.data\<close>.
  Of a state object only the attribute \<^verbatim>\<open>state\<close>, a string, is read; a state object
  is always truthy, so \<^verbatim>\<open>if state and ...\<close> tests presence only.
\<close>

record State =
  state :: string

text \<open>
  A config entry: its identifier and its two dictionaries. The values read from them
  (name, sensor entity id) are strings.
\<close>

record ConfigEntry =
  entry_id :: string
  entry_data :: "string \<rightharpoonup> string"
  options :: "string \<rightharpoonup> string"

text \<open>
  The constants imported from \<^verbatim>\<open>.const\<close>. Their values are not part of the module, so
  every definition below takes them as a parameter.
\<close>

record Const =
  DOMAIN :: string
  CONF_NAME :: string
  CONF_SENSOR_ENTITY_ID :: string

text \<open>
  The shared device handle. The type \<open>'f\<close> stands for Python's \<^verbatim>\<open>float\<close>. The handle's
  reference to \<^verbatim>\<open>hass\<close> is not a field here: the host object is mutable and shared, so
  each method takes the host's current value explicitly.
\<close>

record 'f PIDDeviceHandle =
  entry :: ConfigEntry
  name :: "string option"
  sensor_entity_id :: "string option"
  last_contributions :: "'f option \<times> 'f option \<times> 'f option"

text \<open>
  The host. \<open>states\<close> is the table of the state machine, keyed by the entity id handed
  to \<^verbatim>\<open>hass.states.get\<close> (see \<open>states_get\<close> below for an id that is \<^verbatim>\<open>None\<close>);
  \<open>entity_registry\<close> is \<^verbatim>\<open>async_get_entity_id(platform, domain, unique_id)\<close>;
  \<open>data\<close> is \<^verbatim>\<open>hass.data\<close>, from a domain to the handles of its entries.
\<close>

record 'f HomeAssistant =
  states :: "string option \<rightharpoonup> State"
  entity_registry :: "string \<times> string \<times> string \<rightharpoonup> string"
  data :: "string \<rightharpoonup> (string \<rightharpoonup> 'f PIDDeviceHandle)"

text \<open>
  The exceptions that leave the module: the one \<^verbatim>\<open>async_setup_entry\<close> raises, and the
  one that comes out of \<^verbatim>\<open>hass.states.get\<close> when it is handed \<^verbatim>\<open>None\<close>.
\<close>

datatype error = ConfigEntryNotReady string | AttributeError

section \<open>The module\<close>

text \<open>Python's truth value of a value that is a string or \<^verbatim>\<open>None\<close>.\<close>

definition truthy :: "string option \<Rightarrow> bool" where
  "truthy v = (case v of None \<Rightarrow> False | Some s \<Rightarrow> s \<noteq> [])"

text \<open>\<^verbatim>\<open>d.get(k, default)\<close> of a dictionary.\<close>

definition dict_get :: "('k \<rightharpoonup> 'v) \<Rightarrow> 'k \<Rightarrow> 'v option \<Rightarrow> 'v option" where
  "dict_get d k dflt = (case d k of Some v \<Rightarrow> Some v | None \<Rightarrow> dflt)"

text \<open>\<^verbatim>\<open>PIDDeviceHandle.__init__\<close>.\<close>

definition PIDDeviceHandle_init :: "Const \<Rightarrow> ConfigEntry \<Rightarrow> 'f PIDDeviceHandle" where
  "PIDDeviceHandle_init c e =
     \<lparr> entry = e,
       name = entry_data e (CONF_NAME c),
       sensor_entity_id =
         dict_get (options e) (CONF_SENSOR_ENTITY_ID c) (entry_data e (CONF_SENSOR_ENTITY_ID c)),
       last_contributions = (None, None, None) \<rparr>"

text \<open>\<^verbatim>\<open>PIDDeviceHandle._get_entity_id\<close>: the registry lookup by naming convention.\<close>

definition get_entity_id ::
  "Const \<Rightarrow> 'f HomeAssistant \<Rightarrow> 'f PIDDeviceHandle \<Rightarrow> string \<Rightarrow> string \<Rightarrow> string option" where
  "get_entity_id c hass h platform key =
     (let desired = entry_id (entry h) @ ''_'' @ key
      in entity_registry hass (platform, DOMAIN c, desired))"

text \<open>
  \<^verbatim>\<open>hass.states.get(entity_id)\<close> for an id that may be \<^verbatim>\<open>None\<close>. The host lower-cases
  the id it is given, so \<^verbatim>\<open>None\<close> raises \<^verbatim>\<open>AttributeError\<close>; a string, the empty one
  included, is looked up. \<open>get_number\<close> and \<open>get_switch\<close> reach the lookup only behind
  \<^verbatim>\<open>if not entity_id: return\<close>, with a nonempty string, and read the table directly.
\<close>

definition states_get :: "'f HomeAssistant \<Rightarrow> string option \<Rightarrow> error + State option" where
  "states_get hass entity_id =
     (case entity_id of
        None \<Rightarrow> Inl AttributeError
      | Some _ \<Rightarrow> Inr (states hass entity_id))"

text \<open>
  \<^verbatim>\<open>PIDDeviceHandle.get_number\<close>. The parameter \<open>pyfloat\<close> is the builtin \<^verbatim>\<open>float\<close> on
  strings, \<open>None\<close> where it raises \<^verbatim>\<open>ValueError\<close>; the handler of that exception
  passes, and the method then returns \<^verbatim>\<open>None\<close>.
\<close>

definition get_number ::
  "Const \<Rightarrow> (string \<Rightarrow> 'f option) \<Rightarrow> 'f HomeAssistant \<Rightarrow> 'f PIDDeviceHandle \<Rightarrow> string
     \<Rightarrow> 'f option" where
  "get_number c pyfloat hass h key =
     (let entity_id = get_entity_id c hass h ''number'' key
      in if \<not> truthy entity_id then None
         else (case states hass entity_id of
                 None \<Rightarrow> None
               | Some st \<Rightarrow>
                   if state st \<notin> {''unknown'', ''unavailable''}
                   then (case pyfloat (state st) of Some v \<Rightarrow> Some v | None \<Rightarrow> None)
                   else None))"

text \<open>\<^verbatim>\<open>PIDDeviceHandle.get_switch\<close>.\<close>

definition get_switch ::
  "Const \<Rightarrow> 'f HomeAssistant \<Rightarrow> 'f PIDDeviceHandle \<Rightarrow> string \<Rightarrow> bool" where
  "get_switch c hass h key =
     (let entity_id = get_entity_id c hass h ''switch'' key
      in if \<not> truthy entity_id then True
         else (case states hass entity_id of
                 None \<Rightarrow> True
               | Some st \<Rightarrow>
                   if state st \<notin> {''unknown'', ''unavailable''}
                   then state st = ''on''
                   else True))"

text \<open>
  \<^verbatim>\<open>PIDDeviceHandle.get_input_sensor_value\<close>. The sensor id goes to the state machine
  as it is, so a handle without one raises. On \<^verbatim>\<open>ValueError\<close> a warning is logged and
  the method returns \<^verbatim>\<open>None\<close>.
\<close>

definition get_input_sensor_value ::
  "(string \<Rightarrow> 'f option) \<Rightarrow> 'f HomeAssistant \<Rightarrow> 'f PIDDeviceHandle \<Rightarrow> error + 'f option" where
  "get_input_sensor_value pyfloat hass h =
     (case states_get hass (sensor_entity_id h) of
        Inl e \<Rightarrow> Inl e
      | Inr None \<Rightarrow> Inr None
      | Inr (Some st) \<Rightarrow>
          if state st \<notin> {''unknown'', ''unavailable''}
          then (case pyfloat (state st) of Some v \<Rightarrow> Inr (Some v) | None \<Rightarrow> Inr None)
          else Inr None)"

text \<open>How an f-string prints a value that is a string or \<^verbatim>\<open>None\<close>.\<close>

definition fmt :: "string option \<Rightarrow> string" where
  "fmt v = (case v of None \<Rightarrow> ''None'' | Some s \<Rightarrow> s)"

text \<open>
  \<^verbatim>\<open>async_setup_entry\<close>. The result is the exception raised, or the value returned with
  the host as the call leaves it: \<^verbatim>\<open>hass.data.setdefault(DOMAIN, {})[entry.entry_id] = handle\<close>.
  The sensor id goes to the state machine as it is, before the readiness test, so an
  entry without one raises there. Forwarding the entry to the platforms is the host's
  work and is not modelled.
\<close>

definition async_setup_entry ::
  "Const \<Rightarrow> 'f HomeAssistant \<Rightarrow> ConfigEntry \<Rightarrow> error + (bool \<times> 'f HomeAssistant)" where
  "async_setup_entry c hass e =
     (let sensor_id =
            dict_get (options e) (CONF_SENSOR_ENTITY_ID c) (entry_data e (CONF_SENSOR_ENTITY_ID c))
      in case states_get hass sensor_id of
           Inl err \<Rightarrow> Inl err
         | Inr None \<Rightarrow> Inl (ConfigEntryNotReady (''Sensor '' @ fmt sensor_id @ '' not ready''))
         | Inr (Some st) \<Rightarrow>
             if state st \<in> {''unknown'', ''unavailable''}
             then Inl (ConfigEntryNotReady (''Sensor '' @ fmt sensor_id @ '' not ready''))
             else
               (let handle = PIDDeviceHandle_init c e;
                    per_domain = (case data hass (DOMAIN c) of None \<Rightarrow> Map.empty | Some m \<Rightarrow> m)
                in Inr (True,
                        hass\<lparr>data := (data hass)(DOMAIN c \<mapsto> per_domain(entry_id e \<mapsto> handle))\<rparr>)))"

section \<open>The control core\<close>

text \<open>
  The PID computation, the resolution of the tuning parameters and the per-tick
  orchestration are not part of the module above. Every definition of this section is
  written from the specification, sections 3 and 4, on top of the module's own
  \<open>get_number\<close>, \<open>get_switch\<close> and \<open>get_input_sensor_value\<close>. Floats are
  idealised as real numbers.
\<close>

text \<open>
  Modelled from the spec: the record TuningParameters of section 3, whose producer is
  missing. A limit is a float or absent; \<open>None\<close> is the unbounded default (no lower
  bound for \<open>output_min\<close>, no upper bound for \<open>output_max\<close>).
\<close>

record TuningParameters =
  proportional_gain :: real
  integral_gain :: real
  derivative_gain :: real
  setpoint :: real
  output_min :: "real option"
  output_max :: "real option"
  proportional_enabled :: bool
  integral_enabled :: bool
  derivative_enabled :: bool

text \<open>Modelled from the spec: the record ControllerState of section 3.\<close>

record ControllerState =
  integral_accumulator :: real
  previous_measurement :: "real option"
  last_tick_time :: "real option"

text \<open>
  Modelled from the spec: the names under which the Parameter Resolver looks the tunables
  up, and the default of the setpoint. The spec fixes neither, so they are parameters.
\<close>

record ResolverKeys =
  proportional_gain_key :: string
  integral_gain_key :: string
  derivative_gain_key :: string
  setpoint_key :: string
  setpoint_default :: real
  output_min_key :: string
  output_max_key :: string
  proportional_enabled_key :: string
  integral_enabled_key :: string
  derivative_enabled_key :: string

text \<open>
  Modelled from the spec: \<^verbatim>\<open>get_number(key, default)\<close> of section 4.1, the missing
  two-argument form, as the fallback a caller of the module's \<open>get_number\<close> applies.
\<close>

definition get_number_or ::
  "Const \<Rightarrow> (string \<Rightarrow> real option) \<Rightarrow> real HomeAssistant \<Rightarrow> real PIDDeviceHandle \<Rightarrow> string
     \<Rightarrow> real \<Rightarrow> real" where
  "get_number_or c pyfloat hass h key dflt =
     (case get_number c pyfloat hass h key of None \<Rightarrow> dflt | Some v \<Rightarrow> v)"

text \<open>
  Modelled from the spec: the Resolver's treatment of the two limits (section 3): once
  both are resolved and \<open>output_min \<le> output_max\<close> is violated, they are swapped.
\<close>

definition resolve_limits :: "real option \<Rightarrow> real option \<Rightarrow> real option \<times> real option" where
  "resolve_limits lo hi =
     (case lo of
        None \<Rightarrow> (lo, hi)
      | Some l \<Rightarrow>
          (case hi of
             None \<Rightarrow> (lo, hi)
           | Some u \<Rightarrow> if u < l then (Some u, Some l) else (Some l, Some u)))"

text \<open>
  Modelled from the spec: the Parameter Resolver of section 4.1, missing from the source.
  Gains default to 0, enable flags to true (\<open>get_switch\<close> fails open), limits to the
  unbounded pair.
\<close>

definition resolve_tuning ::
  "ResolverKeys \<Rightarrow> Const \<Rightarrow> (string \<Rightarrow> real option) \<Rightarrow> real HomeAssistant
     \<Rightarrow> real PIDDeviceHandle \<Rightarrow> TuningParameters" where
  "resolve_tuning ks c pyfloat hass h =
     (let limits = resolve_limits (get_number c pyfloat hass h (output_min_key ks))
                                  (get_number c pyfloat hass h (output_max_key ks))
      in \<lparr> proportional_gain = get_number_or c pyfloat hass h (proportional_gain_key ks) 0,
           integral_gain = get_number_or c pyfloat hass h (integral_gain_key ks) 0,
           derivative_gain = get_number_or c pyfloat hass h (derivative_gain_key ks) 0,
           setpoint = get_number_or c pyfloat hass h (setpoint_key ks) (setpoint_default ks),
           output_min = fst limits,
           output_max = snd limits,
           proportional_enabled = get_switch c hass h (proportional_enabled_key ks),
           integral_enabled = get_switch c hass h (integral_enabled_key ks),
           derivative_enabled = get_switch c hass h (derivative_enabled_key ks) \<rparr>)"

text \<open>Modelled from the spec: the invariant of TuningParameters (section 3).\<close>

definition limits_ordered :: "TuningParameters \<Rightarrow> bool" where
  "limits_ordered t =
     (case output_min t of
        None \<Rightarrow> True
      | Some l \<Rightarrow> (case output_max t of None \<Rightarrow> True | Some u \<Rightarrow> l \<le> u))"

text \<open>Modelled from the spec: membership of the closed interval of the two limits.\<close>

definition within_limits :: "real \<Rightarrow> real option \<Rightarrow> real option \<Rightarrow> bool" where
  "within_limits x lo hi =
     ((case lo of None \<Rightarrow> True | Some l \<Rightarrow> l \<le> x) \<and> (case hi of None \<Rightarrow> True | Some u \<Rightarrow> x \<le> u))"

text \<open>Modelled from the spec: \<^verbatim>\<open>clamp(x, output_min, output_max)\<close> of section 4.3, step 6.\<close>

definition clamp :: "real \<Rightarrow> real option \<Rightarrow> real option \<Rightarrow> real" where
  "clamp x lo hi =
     (let capped = (case hi of None \<Rightarrow> x | Some u \<Rightarrow> if u < x then u else x)
      in case lo of None \<Rightarrow> capped | Some l \<Rightarrow> if capped < l then l else capped)"

text \<open>
  Modelled from the spec: the division of section 4.3, step 5. Dividing by a duration that
  is zero or negative is a fault of its own, so that a tick that reaches such a division
  is visible in the result.
\<close>

datatype fault = NonPositiveDuration

definition div_by_duration :: "real \<Rightarrow> real \<Rightarrow> fault + real" where
  "div_by_duration a dt = (if dt \<le> 0 then Inl NonPositiveDuration else Inr (a / dt))"

text \<open>The value a contribution adds to the output sum: 0 for \<^verbatim>\<open>None\<close>.\<close>

definition term_value :: "real option \<Rightarrow> real" where
  "term_value v = (case v of None \<Rightarrow> 0 | Some x \<Rightarrow> x)"

text \<open>
  Modelled from the spec: the anti-windup of section 4.3, step 4. Given the sum of the
  other two terms and the accumulator, an accumulator whose sum leaves the limits is
  replaced by the value that makes the sum hit the bound.
\<close>

definition anti_windup :: "TuningParameters \<Rightarrow> real \<Rightarrow> real \<Rightarrow> real" where
  "anti_windup t others acc =
     (case output_max t of
        Some u \<Rightarrow>
          if u < others + acc then u - others
          else (case output_min t of
                  Some l \<Rightarrow> if others + acc < l then l - others else acc
                | None \<Rightarrow> acc)
      | None \<Rightarrow>
          (case output_min t of
             Some l \<Rightarrow> if others + acc < l then l - others else acc
           | None \<Rightarrow> acc))"

text \<open>
  Modelled from the spec: what a tick of the Engine yields (section 4.3): a no-op, or an
  output with the contributions (P, I, D) and the new state.
\<close>

datatype tick_result =
  NoOp
  | Computed real "real option \<times> real option \<times> real option" ControllerState

text \<open>
  Modelled from the spec: the PID Engine of section 4.3, missing from the source, in the
  order of its steps. Step 7 comes first: a tick whose elapsed time is zero or negative is
  a no-op. With the integral term disabled the accumulator is held (step 3), and step 4
  applies to an accumulator that is part of the sum. The time stamp \<open>now\<close> is what the
  Engine records in \<open>last_tick_time\<close>.
\<close>

definition engine_tick ::
  "TuningParameters \<Rightarrow> ControllerState \<Rightarrow> real \<Rightarrow> real \<Rightarrow> real \<Rightarrow> fault + tick_result" where
  "engine_tick t s measurement elapsed_time now =
     (if elapsed_time \<le> 0 then Inr NoOp
      else
        (let err = setpoint t - measurement;
             p = (if proportional_enabled t then Some (proportional_gain t * err) else None);
             acc = (if integral_enabled t
                    then integral_accumulator s + integral_gain t * err * elapsed_time
                    else integral_accumulator s);
             d_res = (if derivative_enabled t
                      then (case previous_measurement s of
                              None \<Rightarrow> Inr None
                            | Some pm \<Rightarrow>
                                (case div_by_duration
                                        (- derivative_gain t * (measurement - pm)) elapsed_time of
                                   Inl f \<Rightarrow> Inl f
                                 | Inr q \<Rightarrow> Inr (Some q)))
                      else Inr None)
         in case d_res of
              Inl f \<Rightarrow> Inl f
            | Inr d \<Rightarrow>
                (let acc' = (if integral_enabled t
                             then anti_windup t (term_value p + term_value d) acc
                             else acc);
                     i = (if integral_enabled t then Some acc' else None);
                     out = clamp (term_value p + term_value i + term_value d)
                                 (output_min t) (output_max t)
                 in Inr (Computed out (p, i, d)
                           \<lparr> integral_accumulator = acc',
                             previous_measurement = Some measurement,
                             last_tick_time = Some now \<rparr>))))"

text \<open>
  Modelled from the spec: the Control Session of section 4.4, missing from the source. It
  owns the handle (with the last contributions), the ControllerState and the last output.
\<close>

record ControlSession =
  handle :: "real PIDDeviceHandle"
  controller :: ControllerState
  last_output :: "real option"

text \<open>Modelled from the spec: a new session, its state zero and empty (section 3).\<close>

definition new_session :: "real PIDDeviceHandle \<Rightarrow> ControlSession" where
  "new_session h =
     \<lparr> handle = h,
       controller = \<lparr> integral_accumulator = 0, previous_measurement = None,
                      last_tick_time = None \<rparr>,
       last_output = None \<rparr>"

text \<open>
  Modelled from the spec: the reading the Session takes from the Sensor Gate (sections 3,
  4.2 and 7), a ProcessReading that is valid, with its value, or invalid. No error of the
  core is propagated to the caller, so a gate whose lookup raises gives the Session an
  invalid reading.
\<close>

definition sensor_gate_read ::
  "(string \<Rightarrow> real option) \<Rightarrow> real HomeAssistant \<Rightarrow> real PIDDeviceHandle \<Rightarrow> real option" where
  "sensor_gate_read pyfloat hass h =
     (case get_input_sensor_value pyfloat hass h of
        Inl _ \<Rightarrow> None
      | Inr reading \<Rightarrow> reading)"

text \<open>
  Modelled from the spec: the per-tick orchestration of section 4.4: resolve the tuning,
  read the sensor, skip on an invalid reading, else run the Engine and store its results.
  The spec does not say where the elapsed time of a first tick comes from, so the
  scheduler passes the time stamp and the elapsed time. The output the tick returns is
  the field \<open>last_output\<close> of the session it yields.
\<close>

definition session_tick ::
  "ResolverKeys \<Rightarrow> Const \<Rightarrow> (string \<Rightarrow> real option) \<Rightarrow> real HomeAssistant \<Rightarrow> real \<Rightarrow> real
     \<Rightarrow> ControlSession \<Rightarrow> fault + ControlSession" where
  "session_tick ks c pyfloat hass now elapsed_time s =
     (let t = resolve_tuning ks c pyfloat hass (handle s)
      in case sensor_gate_read pyfloat hass (handle s) of
           None \<Rightarrow> Inr s
         | Some measurement \<Rightarrow>
             (case engine_tick t (controller s) measurement elapsed_time now of
                Inl f \<Rightarrow> Inl f
              | Inr NoOp \<Rightarrow> Inr s
              | Inr (Computed out cs st') \<Rightarrow>
                  Inr (s\<lparr> handle := (handle s)\<lparr>last_contributions := cs\<rparr>,
                          controller := st',
                          last_output := Some out \<rparr>)))"

section \<open>Concrete inputs\<close>

text \<open>
  A sample of the builtin \<^verbatim>\<open>float\<close>: on a nonempty string of ASCII digits it returns
  the number the digits denote, and everywhere else it stands for \<^verbatim>\<open>ValueError\<close>.
\<close>

definition digit_of :: "char \<Rightarrow> nat option" where
  "digit_of ch =
     (let n = (of_char ch :: nat) in if 48 \<le> n \<and> n \<le> 57 then Some (n - 48) else None)"

fun digits_value :: "nat \<Rightarrow> string \<Rightarrow> nat option" where
  "digits_value acc [] = Some acc"
| "digits_value acc (ch # cs) =
     (case digit_of ch of None \<Rightarrow> None | Some d \<Rightarrow> digits_value (10 * acc + d) cs)"

definition ex_pyfloat :: "string \<Rightarrow> real option" where
  "ex_pyfloat s = (if s = [] then None else map_option real (digits_value 0 s))"

definition ex_const :: Const where
  "ex_const = \<lparr> DOMAIN = ''advanced_pid_controller'', CONF_NAME = ''name'',
                CONF_SENSOR_ENTITY_ID = ''sensor_entity_id'' \<rparr>"

definition ex_entry :: ConfigEntry where
  "ex_entry = \<lparr> entry_id = ''e1'',
                entry_data = [''name'' \<mapsto> ''Boiler'', ''sensor_entity_id'' \<mapsto> ''sensor.temp''],
                options = Map.empty \<rparr>"

definition ex_handle :: "real PIDDeviceHandle" where
  "ex_handle = PIDDeviceHandle_init ex_const ex_entry"

text \<open>An entry that names no sensor, and its handle.\<close>

definition ex_entry_bare :: ConfigEntry where
  "ex_entry_bare = \<lparr> entry_id = ''e2'', entry_data = [''name'' \<mapsto> ''Boiler''],
                     options = Map.empty \<rparr>"

definition ex_handle_bare :: "real PIDDeviceHandle" where
  "ex_handle_bare = PIDDeviceHandle_init ex_const ex_entry_bare"

text \<open>
  A host with the sensor at 65, the gain \<open>kp\<close> at 2, the setpoint at 70, the limits 0 and
  100, a gain \<open>ki\<close> that is unavailable, a gain \<open>kd\<close> with a value that is no number,
  and three switches: on, off and unknown. No handle is registered yet.
\<close>

definition ex_hass :: "real HomeAssistant" where
  "ex_hass =
     \<lparr> states =
         [Some ''sensor.temp'' \<mapsto> \<lparr>state = ''65''\<rparr>,
          Some ''number.kp'' \<mapsto> \<lparr>state = ''2''\<rparr>,
          Some ''number.ki'' \<mapsto> \<lparr>state = ''unavailable''\<rparr>,
          Some ''number.kd'' \<mapsto> \<lparr>state = ''n/a''\<rparr>,
          Some ''number.setpoint'' \<mapsto> \<lparr>state = ''70''\<rparr>,
          Some ''number.output_min'' \<mapsto> \<lparr>state = ''0''\<rparr>,
          Some ''number.output_max'' \<mapsto> \<lparr>state = ''100''\<rparr>,
          Some ''switch.p'' \<mapsto> \<lparr>state = ''on''\<rparr>,
          Some ''switch.i'' \<mapsto> \<lparr>state = ''off''\<rparr>,
          Some ''switch.d'' \<mapsto> \<lparr>state = ''unknown''\<rparr>],
       entity_registry =
         [(''number'', ''advanced_pid_controller'', ''e1_kp'') \<mapsto> ''number.kp'',
          (''number'', ''advanced_pid_controller'', ''e1_ki'') \<mapsto> ''number.ki'',
          (''number'', ''advanced_pid_controller'', ''e1_kd'') \<mapsto> ''number.kd'',
          (''number'', ''advanced_pid_controller'', ''e1_setpoint'') \<mapsto> ''number.setpoint'',
          (''number'', ''advanced_pid_controller'', ''e1_output_min'') \<mapsto> ''number.output_min'',
          (''number'', ''advanced_pid_controller'', ''e1_output_max'') \<mapsto> ''number.output_max'',
          (''number'', ''advanced_pid_controller'', ''e1_gone'') \<mapsto> ''number.gone'',
          (''switch'', ''advanced_pid_controller'', ''e1_p'') \<mapsto> ''switch.p'',
          (''switch'', ''advanced_pid_controller'', ''e1_i'') \<mapsto> ''switch.i'',
          (''switch'', ''advanced_pid_controller'', ''e1_d'') \<mapsto> ''switch.d'',
          (''switch'', ''advanced_pid_controller'', ''e1_gone'') \<mapsto> ''switch.gone''],
       data = Map.empty \<rparr>"

text \<open>The same host with another state of the sensor, or with the sensor gone.\<close>

definition ex_hass_sensor :: "string option \<Rightarrow> real HomeAssistant" where
  "ex_hass_sensor v =
     (case v of
        None \<Rightarrow> ex_hass\<lparr>states := (states ex_hass)(Some ''sensor.temp'' := None)\<rparr>
      | Some s \<Rightarrow> ex_hass\<lparr>states := (states ex_hass)(Some ''sensor.temp'' \<mapsto> \<lparr>state = s\<rparr>)\<rparr>)"

definition ex_keys :: ResolverKeys where
  "ex_keys =
     \<lparr> proportional_gain_key = ''kp'', integral_gain_key = ''ki'', derivative_gain_key = ''kd'',
       setpoint_key = ''setpoint'', setpoint_default = 0,
       output_min_key = ''output_min'', output_max_key = ''output_max'',
       proportional_enabled_key = ''p'', integral_enabled_key = ''i'',
       derivative_enabled_key = ''d'' \<rparr>"

text \<open>
  A tuning with the integral term switched off, a state after some ticks, and a session in
  that state whose last output was 10.
\<close>

definition ex_tuning :: TuningParameters where
  "ex_tuning =
     \<lparr> proportional_gain = 2, integral_gain = 1, derivative_gain = 0, setpoint = 70,
       output_min = Some 0, output_max = Some 100,
       proportional_enabled = True, integral_enabled = False, derivative_enabled = True \<rparr>"

definition ex_state :: ControllerState where
  "ex_state = \<lparr> integral_accumulator = 5, previous_measurement = Some 64,
                last_tick_time = Some 99 \<rparr>"

definition ex_session :: ControlSession where
  "ex_session = \<lparr> handle = ex_handle\<lparr>last_contributions := (Some 10, None, Some 0)\<rparr>,
                  controller = ex_state, last_output = Some 10 \<rparr>"

section \<open>The module's accessors and its setup\<close>

text \<open>The definitions a concrete input is evaluated with.\<close>

lemmas ex_defs = ex_hass_def ex_hass_sensor_def ex_handle_def ex_entry_def ex_const_def
  ex_handle_bare_def ex_entry_bare_def states_get_def
  PIDDeviceHandle_init_def dict_get_def get_entity_id_def truthy_def ex_pyfloat_def digit_of_def

text \<open>
  Claim C2. For every parameter key, \<open>get_switch\<close> returns true when the registry has no
  (or an empty) entity id for the key or the state machine has no state for it, and when
  the state is \<^verbatim>\<open>unknown\<close> or \<^verbatim>\<open>unavailable\<close>; in every other case it returns whether
  the state is exactly \<^verbatim>\<open>on\<close>.
\<close>

theorem get_switch_fail_open:
  "(let eid = get_entity_id c hass h ''switch'' key in
     ((\<not> truthy eid \<or> states hass eid = None) \<longrightarrow> get_switch c hass h key) \<and>
     (\<forall>st. truthy eid \<and> states hass eid = Some st \<longrightarrow>
        (state st \<in> {''unknown'', ''unavailable''} \<longrightarrow> get_switch c hass h key) \<and>
        (state st \<notin> {''unknown'', ''unavailable''} \<longrightarrow>
           get_switch c hass h key = (state st = ''on''))))"
  by (simp add: get_switch_def Let_def)

text \<open>
  On the sample host: a key the registry does not know, a key whose entity has no state,
  a switch that is unknown, a switch that is on and a switch that is off.
\<close>

theorem get_switch_fail_open_witness:
  "get_switch ex_const ex_hass ex_handle ''missing'' \<and>
   get_switch ex_const ex_hass ex_handle ''gone'' \<and>
   get_switch ex_const ex_hass ex_handle ''d'' \<and>
   get_switch ex_const ex_hass ex_handle ''p'' \<and>
   \<not> get_switch ex_const ex_hass ex_handle ''i''"
  using get_switch_fail_open [of ex_const ex_hass ex_handle "''missing''"]
    get_switch_fail_open [of ex_const ex_hass ex_handle "''gone''"]
    get_switch_fail_open [of ex_const ex_hass ex_handle "''d''"]
    get_switch_fail_open [of ex_const ex_hass ex_handle "''p''"]
    get_switch_fail_open [of ex_const ex_hass ex_handle "''i''"]
  by (simp add: ex_defs Let_def)

text \<open>
  Claim C3, as stated, fails: the method takes no default and hands none back. For a key
  the registry does not know the result is \<^verbatim>\<open>None\<close>, which is not the float 0 (the
  default of a gain), nor any other float.
\<close>

theorem get_number_default_counterexample:
  "get_number ex_const ex_pyfloat ex_hass ex_handle ''missing'' = None \<and>
   get_number ex_const ex_pyfloat ex_hass ex_handle ''missing'' \<noteq> Some 0"
  by (simp add: get_number_def ex_defs)

text \<open>
  Claim C3, amended. For every parameter key, \<open>get_number\<close> (of the key alone) returns
  the float of the stored value when the source is present, its state is neither
  \<^verbatim>\<open>unknown\<close> nor \<^verbatim>\<open>unavailable\<close> and the value parses; when the source is absent,
  unknown or unavailable, or the value does not parse, it returns \<^verbatim>\<open>None\<close>, as a value
  and not as an error.
\<close>

theorem get_number_value_or_none:
  "(let eid = get_entity_id c hass h ''number'' key in
     (\<forall>st v. truthy eid \<and> states hass eid = Some st \<and>
             state st \<notin> {''unknown'', ''unavailable''} \<and> pyfloat (state st) = Some v \<longrightarrow>
        get_number c pyfloat hass h key = Some v) \<and>
     ((\<not> truthy eid \<or> states hass eid = None \<or>
       (\<exists>st. states hass eid = Some st \<and>
          (state st \<in> {''unknown'', ''unavailable''} \<or> pyfloat (state st) = None))) \<longrightarrow>
        get_number c pyfloat hass h key = None))"
  by (auto simp add: get_number_def Let_def split: option.splits)

text \<open>
  On the sample host: a gain of 2, a key the registry does not know, a key whose entity
  has no state, an unavailable gain and a gain whose value is no number.
\<close>

theorem get_number_value_or_none_witness:
  "get_number ex_const ex_pyfloat ex_hass ex_handle ''kp'' = Some 2 \<and>
   get_number ex_const ex_pyfloat ex_hass ex_handle ''missing'' = None \<and>
   get_number ex_const ex_pyfloat ex_hass ex_handle ''gone'' = None \<and>
   get_number ex_const ex_pyfloat ex_hass ex_handle ''ki'' = None \<and>
   get_number ex_const ex_pyfloat ex_hass ex_handle ''kd'' = None"
  using get_number_value_or_none [of ex_const ex_hass ex_handle "''kp''" ex_pyfloat]
    get_number_value_or_none [of ex_const ex_hass ex_handle "''missing''" ex_pyfloat]
    get_number_value_or_none [of ex_const ex_hass ex_handle "''gone''" ex_pyfloat]
    get_number_value_or_none [of ex_const ex_hass ex_handle "''ki''" ex_pyfloat]
    get_number_value_or_none [of ex_const ex_hass ex_handle "''kd''" ex_pyfloat]
  by (simp add: ex_defs Let_def)

text \<open>
  A handle without a sensor id: the lookup raises, and the method with it.
\<close>

lemma get_input_sensor_value_unconfigured:
  "sensor_entity_id h = None \<Longrightarrow> get_input_sensor_value pyfloat hass h = Inl AttributeError"
  by (simp add: get_input_sensor_value_def states_get_def)

text \<open>
  Claim C4. For a handle with a configured sensor, \<open>get_input_sensor_value\<close> raises
  nothing and returns \<^verbatim>\<open>None\<close> exactly when the sensor has no state, its state is
  \<^verbatim>\<open>unknown\<close> or \<^verbatim>\<open>unavailable\<close>, or its value does not parse as a number; in every
  other case it returns the value as a float.
\<close>

theorem sensor_gate_invalid_iff:
  "sensor_entity_id h = Some sid \<longrightarrow>
     (get_input_sensor_value pyfloat hass h = Inr None \<longleftrightarrow>
        (states hass (Some sid) = None \<or>
         (\<exists>st. states hass (Some sid) = Some st \<and>
            (state st \<in> {''unknown'', ''unavailable''} \<or> pyfloat (state st) = None)))) \<and>
     (\<forall>st v. states hass (Some sid) = Some st \<and>
             state st \<notin> {''unknown'', ''unavailable''} \<and> pyfloat (state st) = Some v \<longrightarrow>
        get_input_sensor_value pyfloat hass h = Inr (Some v)) \<and>
     (\<forall>err. get_input_sensor_value pyfloat hass h \<noteq> Inl err)"
  by (auto simp add: get_input_sensor_value_def states_get_def split: option.splits)

text \<open>
  On the sample host: the sensor at 65, then gone, unknown, unavailable and not a number.
\<close>

theorem sensor_gate_invalid_iff_witness:
  "sensor_entity_id ex_handle = Some ''sensor.temp'' \<and>
   get_input_sensor_value ex_pyfloat ex_hass ex_handle = Inr (Some 65) \<and>
   get_input_sensor_value ex_pyfloat (ex_hass_sensor None) ex_handle = Inr None \<and>
   get_input_sensor_value ex_pyfloat (ex_hass_sensor (Some ''unknown'')) ex_handle = Inr None \<and>
   get_input_sensor_value ex_pyfloat (ex_hass_sensor (Some ''unavailable'')) ex_handle = Inr None \<and>
   get_input_sensor_value ex_pyfloat (ex_hass_sensor (Some ''warm'')) ex_handle = Inr None"
  using sensor_gate_invalid_iff [of ex_handle "''sensor.temp''" ex_pyfloat ex_hass]
    sensor_gate_invalid_iff [of ex_handle "''sensor.temp''" ex_pyfloat "ex_hass_sensor None"]
    sensor_gate_invalid_iff [of ex_handle "''sensor.temp''" ex_pyfloat
      "ex_hass_sensor (Some ''unknown'')"]
    sensor_gate_invalid_iff [of ex_handle "''sensor.temp''" ex_pyfloat
      "ex_hass_sensor (Some ''unavailable'')"]
    sensor_gate_invalid_iff [of ex_handle "''sensor.temp''" ex_pyfloat
      "ex_hass_sensor (Some ''warm'')"]
  by (simp add: ex_defs Let_def)

text \<open>
  An entry without a sensor id: the lookup raises before the readiness test.
\<close>

lemma async_setup_entry_unconfigured:
  "dict_get (options e) (CONF_SENSOR_ENTITY_ID c) (entry_data e (CONF_SENSOR_ENTITY_ID c)) = None
     \<Longrightarrow> async_setup_entry c hass e = Inl AttributeError"
  by (simp add: async_setup_entry_def states_get_def)

text \<open>
  Claim C9. For an entry with a configured sensor, \<open>async_setup_entry\<close> fails exactly when
  that sensor has no state or its state is \<^verbatim>\<open>unknown\<close> or \<^verbatim>\<open>unavailable\<close>, and then it
  raises \<^verbatim>\<open>ConfigEntryNotReady\<close>, before any handle is made. In every other case, a
  sensor whose value is no number included, it returns true and has stored the new handle
  under the domain and the entry's id. For such an entry this is the one exception of the
  module: \<open>get_number\<close> and \<open>get_switch\<close> return values on every input, and
  \<open>get_input_sensor_value\<close> does on the handle of the entry.
\<close>

theorem setup_blocks_iff_sensor_not_ready:
  "dict_get (options e) (CONF_SENSOR_ENTITY_ID c) (entry_data e (CONF_SENSOR_ENTITY_ID c)) = Some sid
   \<longrightarrow>
   (let blocked = (states hass (Some sid) = None \<or>
                   (\<exists>st. states hass (Some sid) = Some st \<and>
                      state st \<in> {''unknown'', ''unavailable''}))
    in (isl (async_setup_entry c hass e) \<longleftrightarrow> blocked) \<and>
       (blocked \<longrightarrow>
          async_setup_entry c hass e = Inl (ConfigEntryNotReady (''Sensor '' @ sid @ '' not ready''))) \<and>
       (\<not> blocked \<longrightarrow>
          (\<exists>hass'. async_setup_entry c hass e = Inr (True, hass') \<and>
             (\<exists>m. data hass' (DOMAIN c) = Some m \<and>
                   m (entry_id e) = Some (PIDDeviceHandle_init c e)))) \<and>
       (\<forall>pyfloat err.
          get_input_sensor_value pyfloat hass (PIDDeviceHandle_init c e) \<noteq> Inl err))"
  by (auto simp add: async_setup_entry_def states_get_def get_input_sensor_value_def
      PIDDeviceHandle_init_def fmt_def Let_def split: option.splits)

text \<open>
  On the sample host: the sensor gone, the sensor unavailable, and a sensor whose state is
  no number, which does not block.
\<close>

theorem setup_blocks_iff_sensor_not_ready_witness:
  "dict_get (options ex_entry) (CONF_SENSOR_ENTITY_ID ex_const)
     (entry_data ex_entry (CONF_SENSOR_ENTITY_ID ex_const)) = Some ''sensor.temp'' \<and>
   async_setup_entry ex_const (ex_hass_sensor None) ex_entry =
     Inl (ConfigEntryNotReady ''Sensor sensor.temp not ready'') \<and>
   async_setup_entry ex_const (ex_hass_sensor (Some ''unavailable'')) ex_entry =
     Inl (ConfigEntryNotReady ''Sensor sensor.temp not ready'') \<and>
   (\<exists>hass'. async_setup_entry ex_const (ex_hass_sensor (Some ''warm'')) ex_entry = Inr (True, hass') \<and>
      (\<exists>m. data hass' ''advanced_pid_controller'' = Some m \<and> m ''e1'' = Some ex_handle))"
  using setup_blocks_iff_sensor_not_ready [of ex_entry ex_const "''sensor.temp''"
      "ex_hass_sensor None"]
    setup_blocks_iff_sensor_not_ready [of ex_entry ex_const "''sensor.temp''"
      "ex_hass_sensor (Some ''unavailable'')"]
    setup_blocks_iff_sensor_not_ready [of ex_entry ex_const "''sensor.temp''"
      "ex_hass_sensor (Some ''warm'')"]
  by (simp add: ex_defs Let_def)

text \<open>
  Claim C10. A handle that has just been constructed holds the contributions
  \<^verbatim>\<open>(None, None, None)\<close>, and so does the handle a successful setup has stored.
\<close>

theorem new_handle_no_contributions:
  "last_contributions (PIDDeviceHandle_init c e) = (None, None, None) \<and>
   (\<forall>b hass'. async_setup_entry c hass e = Inr (b, hass') \<longrightarrow>
      (\<exists>m h. data hass' (DOMAIN c) = Some m \<and> m (entry_id e) = Some h \<and>
             last_contributions h = (None, None, None)))"
  by (auto simp add: async_setup_entry_def PIDDeviceHandle_init_def Let_def
      split: sum.splits option.splits if_splits)

text \<open>On the sample host, whose sensor is ready, setup stores such a handle.\<close>

theorem new_handle_no_contributions_witness:
  "last_contributions ex_handle = (None, None, None) \<and>
   (\<exists>hass' m h. async_setup_entry ex_const ex_hass ex_entry = Inr (True, hass') \<and>
      data hass' ''advanced_pid_controller'' = Some m \<and> m ''e1'' = Some h \<and>
      last_contributions h = (None, None, None))"
proof -
  have "\<exists>hass'. async_setup_entry ex_const ex_hass ex_entry = Inr (True, hass')"
    by (simp add: async_setup_entry_def ex_defs Let_def)
  then obtain hass' where run: "async_setup_entry ex_const ex_hass ex_entry = Inr (True, hass')" ..
  have dom: "DOMAIN ex_const = ''advanced_pid_controller''" and eid: "entry_id ex_entry = ''e1''"
    by (simp_all add: ex_const_def ex_entry_def)
  from new_handle_no_contributions [of ex_const ex_entry ex_hass] run
  show ?thesis
    unfolding ex_handle_def dom eid by blast
qed

section \<open>The control core: the Engine, the Resolver and the Session\<close>

text \<open>The definitions a tick is evaluated with.\<close>

lemmas engine_defs = engine_tick_def div_by_duration_def term_value_def anti_windup_def
  clamp_def within_limits_def limits_ordered_def

text \<open>Between ordered limits, the clamped value lies within them.\<close>

lemma clamp_within_limits:
  "(case lo of None \<Rightarrow> True | Some l \<Rightarrow> (case hi of None \<Rightarrow> True | Some u \<Rightarrow> l \<le> u))
     \<Longrightarrow> within_limits (clamp x lo hi) lo hi"
  by (auto simp add: clamp_def within_limits_def Let_def split: option.splits)

text \<open>The guard of step 7 precedes the division: no tick ends in a fault.\<close>

lemma engine_tick_no_fault: "engine_tick t s m dt now \<noteq> Inl f"
  by (simp add: engine_tick_def div_by_duration_def Let_def split: option.splits)

lemma session_tick_no_fault: "session_tick ks c pyfloat hass now dt s \<noteq> Inl f"
  by (simp add: session_tick_def Let_def engine_tick_no_fault
      split: option.splits sum.splits tick_result.splits)

text \<open>What a computed tick returns, read off the steps of the Engine.\<close>

lemma engine_tick_computed:
  "engine_tick t s m dt now = Inr (Computed out cs s') \<Longrightarrow>
     0 < dt \<and>
     out = clamp (term_value (fst cs) + term_value (fst (snd cs)) + term_value (snd (snd cs)))
                 (output_min t) (output_max t) \<and>
     fst (snd cs) = (if integral_enabled t then Some (integral_accumulator s') else None) \<and>
     integral_accumulator s' =
       (if integral_enabled t
        then anti_windup t (term_value (fst cs) + term_value (snd (snd cs)))
               (integral_accumulator s + integral_gain t * (setpoint t - m) * dt)
        else integral_accumulator s) \<and>
     previous_measurement s' = Some m \<and> last_tick_time s' = Some now"
  by (auto simp add: engine_tick_def div_by_duration_def Let_def split: option.splits if_splits)

text \<open>An accumulator whose sum is within the limits is left alone by the anti-windup.\<close>

lemma anti_windup_within:
  "within_limits (others + acc) (output_min t) (output_max t) \<Longrightarrow> anti_windup t others acc = acc"
  by (auto simp add: anti_windup_def within_limits_def split: option.splits)

text \<open>The limits the Resolver hands to the Engine are ordered.\<close>

lemma resolve_limits_ordered:
  "(case fst (resolve_limits lo hi) of None \<Rightarrow> True
    | Some l \<Rightarrow> (case snd (resolve_limits lo hi) of None \<Rightarrow> True | Some u \<Rightarrow> l \<le> u))"
  by (simp add: resolve_limits_def split: option.splits)

lemma resolve_tuning_limits:
  "output_min (resolve_tuning ks c pyfloat hass h) =
     fst (resolve_limits (get_number c pyfloat hass h (output_min_key ks))
                         (get_number c pyfloat hass h (output_max_key ks)))"
  "output_max (resolve_tuning ks c pyfloat hass h) =
     snd (resolve_limits (get_number c pyfloat hass h (output_min_key ks))
                         (get_number c pyfloat hass h (output_max_key ks)))"
  by (simp_all add: resolve_tuning_def Let_def)

lemma resolve_tuning_ordered: "limits_ordered (resolve_tuning ks c pyfloat hass h)"
  unfolding limits_ordered_def resolve_tuning_limits by (rule resolve_limits_ordered)

text \<open>
  Claim C1. For every tuning whose limits are ordered (the invariant of TuningParameters),
  whatever its gains and enable flags, and for every measurement, the output of a computed
  tick of the Engine lies within the closed interval of \<open>output_min\<close> and \<open>output_max\<close>.
  Every tuning the Resolver produces is such a tuning, so for those the statement has no
  condition.
\<close>

theorem engine_output_within_limits:
  "(limits_ordered t \<longrightarrow>
      (\<forall>out cs s'. engine_tick t s m dt now = Inr (Computed out cs s') \<longrightarrow>
         within_limits out (output_min t) (output_max t))) \<and>
   (\<forall>out cs s'. engine_tick (resolve_tuning ks c pyfloat hass h) s m dt now = Inr (Computed out cs s')
      \<longrightarrow> within_limits out (output_min (resolve_tuning ks c pyfloat hass h))
                            (output_max (resolve_tuning ks c pyfloat hass h)))"
proof -
  have main: "within_limits out (output_min t') (output_max t')"
    if "limits_ordered t'" and "engine_tick t' s m dt now = Inr (Computed out cs s')"
    for t' out cs s'
  proof -
    from that(2) obtain x where "out = clamp x (output_min t') (output_max t')"
      using engine_tick_computed by blast
    moreover from that(1) have "within_limits (clamp x (output_min t') (output_max t'))
        (output_min t') (output_max t')"
      unfolding limits_ordered_def by (rule clamp_within_limits)
    ultimately show ?thesis by simp
  qed
  show ?thesis
    using main resolve_tuning_ordered by blast
qed

text \<open>
  The example of the spec (setpoint 70, gain 2, limits 0 and 100, measurement 65, output
  10), a tick that saturates at the upper limit, and a tick on the tuning resolved from
  the sample host.
\<close>

theorem engine_output_within_limits_witness:
  "limits_ordered ex_tuning \<and>
   engine_tick ex_tuning ex_state 65 1 100 =
     Inr (Computed 10 (Some 10, None, Some 0)
            \<lparr> integral_accumulator = 5, previous_measurement = Some 65,
              last_tick_time = Some 100 \<rparr>) \<and>
   within_limits 10 (output_min ex_tuning) (output_max ex_tuning) \<and>
   limits_ordered (ex_tuning\<lparr>integral_enabled := True, proportional_gain := 30\<rparr>) \<and>
   engine_tick (ex_tuning\<lparr>integral_enabled := True, proportional_gain := 30\<rparr>) ex_state 65 1 100 =
     Inr (Computed 100 (Some 150, Some (- 50), Some 0)
            \<lparr> integral_accumulator = - 50, previous_measurement = Some 65,
              last_tick_time = Some 100 \<rparr>) \<and>
   within_limits 100 (output_min (ex_tuning\<lparr>integral_enabled := True, proportional_gain := 30\<rparr>))
                     (output_max (ex_tuning\<lparr>integral_enabled := True, proportional_gain := 30\<rparr>)) \<and>
   engine_tick (resolve_tuning ex_keys ex_const ex_pyfloat ex_hass ex_handle) ex_state 61 2 100 =
     Inr (Computed 18 (Some 18, None, Some 0)
            \<lparr> integral_accumulator = 5, previous_measurement = Some 61,
              last_tick_time = Some 100 \<rparr>) \<and>
   within_limits 18 (output_min (resolve_tuning ex_keys ex_const ex_pyfloat ex_hass ex_handle))
                    (output_max (resolve_tuning ex_keys ex_const ex_pyfloat ex_hass ex_handle))"
proof -
  have ord: "limits_ordered ex_tuning"
    by (simp add: limits_ordered_def ex_tuning_def)
  have run: "engine_tick ex_tuning ex_state 65 1 100 =
     Inr (Computed 10 (Some 10, None, Some 0)
            \<lparr> integral_accumulator = 5, previous_measurement = Some 65,
              last_tick_time = Some 100 \<rparr>)"
    by (simp add: engine_defs ex_tuning_def ex_state_def Let_def)
  let ?sat = "ex_tuning\<lparr>integral_enabled := True, proportional_gain := 30\<rparr>"
  have ord_sat: "limits_ordered ?sat"
    by (simp add: limits_ordered_def ex_tuning_def)
  have run_sat: "engine_tick ?sat ex_state 65 1 100 =
     Inr (Computed 100 (Some 150, Some (- 50), Some 0)
            \<lparr> integral_accumulator = - 50, previous_measurement = Some 65,
              last_tick_time = Some 100 \<rparr>)"
    by (simp add: engine_defs ex_tuning_def ex_state_def Let_def)
  have res: "resolve_tuning ex_keys ex_const ex_pyfloat ex_hass ex_handle =
      ex_tuning\<lparr>integral_gain := 0\<rparr>"
    by (simp add: resolve_tuning_def resolve_limits_def get_number_or_def get_number_def
        get_switch_def ex_keys_def ex_tuning_def ex_defs Let_def)
  have run': "engine_tick (resolve_tuning ex_keys ex_const ex_pyfloat ex_hass ex_handle)
       ex_state 61 2 100 =
     Inr (Computed 18 (Some 18, None, Some 0)
            \<lparr> integral_accumulator = 5, previous_measurement = Some 61,
              last_tick_time = Some 100 \<rparr>)"
    unfolding res by (simp add: engine_defs ex_tuning_def ex_state_def Let_def)
  from engine_output_within_limits [of ex_tuning ex_state 65 1 100] ord run
  have "within_limits 10 (output_min ex_tuning) (output_max ex_tuning)" by blast
  moreover
  from engine_output_within_limits [of ?sat ex_state 65 1 100] ord_sat run_sat
  have "within_limits 100 (output_min ?sat) (output_max ?sat)" by blast
  moreover
  from engine_output_within_limits [of _ ex_state 61 2 100 ex_keys ex_const ex_pyfloat ex_hass
      ex_handle] run'
  have "within_limits 18 (output_min (resolve_tuning ex_keys ex_const ex_pyfloat ex_hass ex_handle))
          (output_max (resolve_tuning ex_keys ex_const ex_pyfloat ex_hass ex_handle))" by blast
  ultimately show ?thesis using ord run ord_sat run_sat run' by blast
qed

text \<open>
  Claim C5. On a tick whose sensor reading is invalid (the module's
  \<open>get_input_sensor_value\<close> returns \<^verbatim>\<open>None\<close>, or the Session gets no reading from the
  gate at all), the Session skips the computation: the tick yields the session it was
  given, so the last output and the ControllerState (\<open>integral_accumulator\<close>,
  \<open>previous_measurement\<close>, \<open>last_tick_time\<close>) are those of the prior tick.
\<close>

theorem invalid_reading_skips_tick:
  "(get_input_sensor_value pyfloat hass (handle s) = Inr None \<or>
    sensor_gate_read pyfloat hass (handle s) = None) \<longrightarrow>
     (\<exists>s'. session_tick ks c pyfloat hass now dt s = Inr s' \<and>
        last_output s' = last_output s \<and>
        integral_accumulator (controller s') = integral_accumulator (controller s) \<and>
        previous_measurement (controller s') = previous_measurement (controller s) \<and>
        last_tick_time (controller s') = last_tick_time (controller s) \<and>
        s' = s)"
  by (auto simp add: session_tick_def sensor_gate_read_def Let_def)

text \<open>
  On the sample session: the sensor unavailable, the sensor with no number, and a session
  whose handle names no sensor.
\<close>

theorem invalid_reading_skips_tick_witness:
  "get_input_sensor_value ex_pyfloat (ex_hass_sensor (Some ''unavailable'')) (handle ex_session)
     = Inr None \<and>
   session_tick ex_keys ex_const ex_pyfloat (ex_hass_sensor (Some ''unavailable'')) 101 1 ex_session
     = Inr ex_session \<and>
   get_input_sensor_value ex_pyfloat (ex_hass_sensor (Some ''warm'')) (handle ex_session)
     = Inr None \<and>
   session_tick ex_keys ex_const ex_pyfloat (ex_hass_sensor (Some ''warm'')) 101 1 ex_session
     = Inr ex_session \<and>
   sensor_gate_read ex_pyfloat ex_hass (handle (ex_session\<lparr>handle := ex_handle_bare\<rparr>)) = None \<and>
   session_tick ex_keys ex_const ex_pyfloat ex_hass 101 1 (ex_session\<lparr>handle := ex_handle_bare\<rparr>)
     = Inr (ex_session\<lparr>handle := ex_handle_bare\<rparr>)"
proof -
  have a: "get_input_sensor_value ex_pyfloat (ex_hass_sensor (Some ''unavailable''))
      (handle ex_session) = Inr None"
    by (simp add: get_input_sensor_value_def ex_session_def ex_defs)
  have b: "get_input_sensor_value ex_pyfloat (ex_hass_sensor (Some ''warm''))
      (handle ex_session) = Inr None"
    by (simp add: get_input_sensor_value_def ex_session_def ex_defs)
  have c: "sensor_gate_read ex_pyfloat ex_hass (handle (ex_session\<lparr>handle := ex_handle_bare\<rparr>))
      = None"
    by (simp add: sensor_gate_read_def get_input_sensor_value_def ex_defs)
  from a b c
    invalid_reading_skips_tick [of ex_pyfloat "ex_hass_sensor (Some ''unavailable'')" ex_session
      ex_keys ex_const 101 1]
    invalid_reading_skips_tick [of ex_pyfloat "ex_hass_sensor (Some ''warm'')" ex_session
      ex_keys ex_const 101 1]
    invalid_reading_skips_tick [of ex_pyfloat ex_hass "ex_session\<lparr>handle := ex_handle_bare\<rparr>"
      ex_keys ex_const 101 1]
  show ?thesis by simp
qed

text \<open>
  Claim C6. A tick whose elapsed time is zero or negative is a no-op: the Engine computes
  nothing, the Session yields the session it was given (state and last output unchanged),
  and no tick, of the Engine or of the Session, ends in the fault of dividing by a
  duration that is zero or negative.
\<close>

theorem nonpositive_elapsed_is_noop:
  "(dt \<le> 0 \<longrightarrow>
      engine_tick t st m dt now = Inr NoOp \<and>
      session_tick ks c pyfloat hass now dt s = Inr s) \<and>
   (\<forall>f. engine_tick t st m dt now \<noteq> Inl f) \<and>
   (\<forall>f. session_tick ks c pyfloat hass now dt s \<noteq> Inl f)"
proof (intro conjI impI allI)
  assume "dt \<le> 0"
  then have noop: "engine_tick t' st' m' dt now = Inr NoOp" for t' st' m'
    by (simp add: engine_tick_def)
  from noop show "engine_tick t st m dt now = Inr NoOp" .
  from noop show "session_tick ks c pyfloat hass now dt s = Inr s"
    by (simp add: session_tick_def Let_def split: option.splits)
next
  fix f show "engine_tick t st m dt now \<noteq> Inl f" by (rule engine_tick_no_fault)
next
  fix f show "session_tick ks c pyfloat hass now dt s \<noteq> Inl f" by (rule session_tick_no_fault)
qed

text \<open>On the sample session: an elapsed time of 0 and one of -3.\<close>

theorem nonpositive_elapsed_is_noop_witness:
  "engine_tick ex_tuning ex_state 65 0 100 = Inr NoOp \<and>
   engine_tick ex_tuning ex_state 65 (- 3) 100 = Inr NoOp \<and>
   session_tick ex_keys ex_const ex_pyfloat ex_hass 100 0 ex_session = Inr ex_session \<and>
   session_tick ex_keys ex_const ex_pyfloat ex_hass 96 (- 3) ex_session = Inr ex_session"
  using nonpositive_elapsed_is_noop [of 0 ex_tuning ex_state 65 100 ex_keys ex_const ex_pyfloat
      ex_hass ex_session]
    nonpositive_elapsed_is_noop [of "- 3" ex_tuning ex_state 65 100]
    nonpositive_elapsed_is_noop [of "- 3" _ _ _ 96 ex_keys ex_const ex_pyfloat ex_hass ex_session]
  by simp

text \<open>
  Claim C7. On a tick with the integral term disabled the Engine leaves
  \<open>integral_accumulator\<close> as it is and reports no integral contribution; a later tick
  with the term enabled accumulates onto the held value (as long as the sum stays within
  the limits, where the anti-windup does not intervene). The same holds for a tick of the
  Session whose integral switch is off, whether the tick computes or not.
\<close>

theorem disabled_integral_holds_accumulator:
  "(\<not> integral_enabled t \<longrightarrow>
      (\<forall>out cs s'. engine_tick t s m dt now = Inr (Computed out cs s') \<longrightarrow>
         integral_accumulator s' = integral_accumulator s \<and> fst (snd cs) = None \<and>
         (\<forall>t2 m2 dt2 now2 out2 p2 i2 d2 s2.
            integral_enabled t2 \<and>
            engine_tick t2 s' m2 dt2 now2 = Inr (Computed out2 (p2, i2, d2) s2) \<and>
            within_limits
              (term_value p2 + term_value d2 +
               (integral_accumulator s + integral_gain t2 * (setpoint t2 - m2) * dt2))
              (output_min t2) (output_max t2) \<longrightarrow>
            integral_accumulator s2 =
              integral_accumulator s + integral_gain t2 * (setpoint t2 - m2) * dt2))) \<and>
   (\<not> get_switch c hass (handle ss) (integral_enabled_key ks) \<longrightarrow>
      (\<forall>ss'. session_tick ks c pyfloat hass now dt ss = Inr ss' \<longrightarrow>
         integral_accumulator (controller ss') = integral_accumulator (controller ss)))"
proof (intro conjI impI allI)
  fix out cs s'
  assume off: "\<not> integral_enabled t" and run: "engine_tick t s m dt now = Inr (Computed out cs s')"
  from engine_tick_computed [OF run] off
  show "integral_accumulator s' = integral_accumulator s" and "fst (snd cs) = None"
    by simp_all
next
  fix out cs s' t2 m2 dt2 now2 out2 p2 i2 d2 s2
  assume off: "\<not> integral_enabled t" and run: "engine_tick t s m dt now = Inr (Computed out cs s')"
    and next_tick: "integral_enabled t2 \<and>
            engine_tick t2 s' m2 dt2 now2 = Inr (Computed out2 (p2, i2, d2) s2) \<and>
            within_limits
              (term_value p2 + term_value d2 +
               (integral_accumulator s + integral_gain t2 * (setpoint t2 - m2) * dt2))
              (output_min t2) (output_max t2)"
  from engine_tick_computed [OF run] off
  have held: "integral_accumulator s' = integral_accumulator s" by simp
  from next_tick have run2: "engine_tick t2 s' m2 dt2 now2 = Inr (Computed out2 (p2, i2, d2) s2)"
    by simp
  from engine_tick_computed [OF run2] next_tick held
  have "integral_accumulator s2 =
      anti_windup t2 (term_value p2 + term_value d2)
        (integral_accumulator s + integral_gain t2 * (setpoint t2 - m2) * dt2)"
    by simp
  with next_tick show "integral_accumulator s2 =
      integral_accumulator s + integral_gain t2 * (setpoint t2 - m2) * dt2"
    by (simp add: anti_windup_within)
next
  fix ss'
  assume off: "\<not> get_switch c hass (handle ss) (integral_enabled_key ks)"
    and run: "session_tick ks c pyfloat hass now dt ss = Inr ss'"
  have flag: "\<not> integral_enabled (resolve_tuning ks c pyfloat hass (handle ss))"
    using off by (simp add: resolve_tuning_def Let_def)
  show "integral_accumulator (controller ss') = integral_accumulator (controller ss)"
  proof (cases "sensor_gate_read pyfloat hass (handle ss)")
    case None
    with run show ?thesis by (simp add: session_tick_def Let_def)
  next
    case (Some mm)
    show ?thesis
    proof (cases "engine_tick (resolve_tuning ks c pyfloat hass (handle ss)) (controller ss) mm dt now")
      case (Inl f)
      with engine_tick_no_fault show ?thesis by blast
    next
      case (Inr r)
      show ?thesis
      proof (cases r)
        case NoOp
        with run Some Inr show ?thesis by (simp add: session_tick_def Let_def)
      next
        case (Computed out cs st')
        with Inr have e: "engine_tick (resolve_tuning ks c pyfloat hass (handle ss)) (controller ss)
            mm dt now = Inr (Computed out cs st')" by simp
        from engine_tick_computed [OF e] flag
        have "integral_accumulator st' = integral_accumulator (controller ss)" by simp
        moreover from run Some e have "controller ss' = st'"
          by (auto simp add: session_tick_def Let_def)
        ultimately show ?thesis by simp
      qed
    qed
  qed
qed

text \<open>
  An accumulator of 5 is held over a tick with the term disabled, and the next tick, with
  the term enabled, gain 1, error 5 and one second elapsed, takes it to 10.
\<close>

theorem disabled_integral_holds_accumulator_witness:
  "\<not> integral_enabled ex_tuning \<and>
   engine_tick ex_tuning ex_state 65 1 100 =
     Inr (Computed 10 (Some 10, None, Some 0)
            \<lparr> integral_accumulator = 5, previous_measurement = Some 65,
              last_tick_time = Some 100 \<rparr>) \<and>
   integral_accumulator ex_state = 5 \<and>
   engine_tick (ex_tuning\<lparr>integral_enabled := True\<rparr>)
       \<lparr> integral_accumulator = 5, previous_measurement = Some 65, last_tick_time = Some 100 \<rparr>
       65 1 101 =
     Inr (Computed 20 (Some 10, Some 10, Some 0)
            \<lparr> integral_accumulator = 10, previous_measurement = Some 65,
              last_tick_time = Some 101 \<rparr>) \<and>
   \<not> get_switch ex_const ex_hass (handle ex_session) (integral_enabled_key ex_keys) \<and>
   (\<exists>ss'. session_tick ex_keys ex_const ex_pyfloat ex_hass 100 1 ex_session = Inr ss' \<and>
      last_output ss' = Some 10 \<and> last_tick_time (controller ss') = Some 100 \<and>
      integral_accumulator (controller ss') = integral_accumulator (controller ex_session))"
proof -
  let ?s1 = "\<lparr> integral_accumulator = 5, previous_measurement = Some 65,
               last_tick_time = Some (100::real) \<rparr>"
  let ?s2 = "\<lparr> integral_accumulator = 10, previous_measurement = Some 65,
               last_tick_time = Some (101::real) \<rparr>"
  let ?t2 = "ex_tuning\<lparr>integral_enabled := True\<rparr>"
  have off: "\<not> integral_enabled ex_tuning"
    by (simp add: ex_tuning_def)
  have on: "integral_enabled ?t2"
    by simp
  have run1: "engine_tick ex_tuning ex_state 65 1 100 = Inr (Computed 10 (Some 10, None, Some 0) ?s1)"
    by (simp add: engine_defs ex_tuning_def ex_state_def Let_def)
  have run2: "engine_tick ?t2 ?s1 65 1 101 = Inr (Computed 20 (Some 10, Some 10, Some 0) ?s2)"
    by (simp add: engine_defs ex_tuning_def Let_def)
  have room: "within_limits
      (term_value (Some 10) + term_value (Some 0) +
       (integral_accumulator ex_state + integral_gain ?t2 * (setpoint ?t2 - 65) * 1))
      (output_min ?t2) (output_max ?t2)"
    by (simp add: within_limits_def term_value_def ex_tuning_def ex_state_def)
  have sw: "\<not> get_switch ex_const ex_hass (handle ex_session) (integral_enabled_key ex_keys)"
    by (simp add: get_switch_def ex_session_def ex_keys_def ex_defs Let_def)
  have res: "resolve_tuning ex_keys ex_const ex_pyfloat ex_hass (handle ex_session) =
      ex_tuning\<lparr>integral_gain := 0\<rparr>"
    by (simp add: resolve_tuning_def resolve_limits_def get_number_or_def get_number_def
        get_switch_def ex_keys_def ex_tuning_def ex_session_def ex_defs Let_def)
  have rd: "sensor_gate_read ex_pyfloat ex_hass (handle ex_session) = Some 65"
    by (simp add: sensor_gate_read_def get_input_sensor_value_def ex_session_def ex_defs)
  have run3: "engine_tick (ex_tuning\<lparr>integral_gain := 0\<rparr>) (controller ex_session) 65 1 100 =
      Inr (Computed 10 (Some 10, None, Some 0) ?s1)"
    by (simp add: engine_defs ex_tuning_def ex_state_def ex_session_def Let_def)
  have tick: "session_tick ex_keys ex_const ex_pyfloat ex_hass 100 1 ex_session =
      Inr (ex_session\<lparr> handle := (handle ex_session)\<lparr>last_contributions := (Some 10, None, Some 0)\<rparr>,
                       controller := ?s1, last_output := Some 10 \<rparr>)"
    by (simp add: session_tick_def res rd run3)
  note inst = disabled_integral_holds_accumulator [of ex_tuning ex_state 65 1 100 ex_const ex_hass
      ex_session ex_keys ex_pyfloat]
  from inst off run1 have "integral_accumulator ?s1 = integral_accumulator ex_state"
    by blast
  then have frozen: "integral_accumulator ex_state = 5" by simp
  from inst off run1 on run2 room
  have "integral_accumulator ?s2 =
      integral_accumulator ex_state + integral_gain ?t2 * (setpoint ?t2 - 65) * 1"
    by blast
  from inst sw tick
  have "integral_accumulator (controller (ex_session\<lparr> handle := (handle ex_session)\<lparr>last_contributions := (Some 10, None, Some 0)\<rparr>,
                       controller := ?s1, last_output := Some 10 \<rparr>)) = integral_accumulator (controller ex_session)"
    by blast
  with tick have "\<exists>ss'. session_tick ex_keys ex_const ex_pyfloat ex_hass 100 1 ex_session = Inr ss' \<and>
      last_output ss' = Some 10 \<and> last_tick_time (controller ss') = Some 100 \<and>
      integral_accumulator (controller ss') = integral_accumulator (controller ex_session)"
    by simp
  with off run1 frozen run2 sw show ?thesis by blast
qed

text \<open>
  Claim C8. The limits of the tuning the Resolver produces satisfy
  \<open>output_min \<le> output_max\<close>; when both raw values are resolved and violate it, the
  resolved limits are the two raw values swapped, and otherwise the raw values themselves.
\<close>

theorem resolver_orders_limits:
  "limits_ordered (resolve_tuning ks c pyfloat hass h) \<and>
   (\<forall>l u. get_number c pyfloat hass h (output_min_key ks) = Some l \<and>
          get_number c pyfloat hass h (output_max_key ks) = Some u \<longrightarrow>
      (u < l \<longrightarrow> output_min (resolve_tuning ks c pyfloat hass h) = Some u \<and>
                 output_max (resolve_tuning ks c pyfloat hass h) = Some l) \<and>
      (l \<le> u \<longrightarrow> output_min (resolve_tuning ks c pyfloat hass h) = Some l \<and>
                 output_max (resolve_tuning ks c pyfloat hass h) = Some u))"
  by (simp add: resolve_tuning_ordered resolve_tuning_limits resolve_limits_def)

text \<open>
  On the sample host, with the two keys exchanged (raw limits 100 and 0) and with the keys
  as they are (raw limits 0 and 100).
\<close>

theorem resolver_orders_limits_witness:
  "get_number ex_const ex_pyfloat ex_hass ex_handle ''output_max'' = Some 100 \<and>
   get_number ex_const ex_pyfloat ex_hass ex_handle ''output_min'' = Some 0 \<and>
   output_min (resolve_tuning (ex_keys\<lparr>output_min_key := ''output_max'', output_max_key := ''output_min''\<rparr>)
                 ex_const ex_pyfloat ex_hass ex_handle) = Some 0 \<and>
   output_max (resolve_tuning (ex_keys\<lparr>output_min_key := ''output_max'', output_max_key := ''output_min''\<rparr>)
                 ex_const ex_pyfloat ex_hass ex_handle) = Some 100 \<and>
   output_min (resolve_tuning ex_keys ex_const ex_pyfloat ex_hass ex_handle) = Some 0 \<and>
   output_max (resolve_tuning ex_keys ex_const ex_pyfloat ex_hass ex_handle) = Some 100"
proof -
  have hi: "get_number ex_const ex_pyfloat ex_hass ex_handle ''output_max'' = Some 100"
    by (simp add: get_number_def ex_defs Let_def)
  have lo: "get_number ex_const ex_pyfloat ex_hass ex_handle ''output_min'' = Some 0"
    by (simp add: get_number_def ex_defs Let_def)
  from resolver_orders_limits [of "ex_keys\<lparr>output_min_key := ''output_max'', output_max_key := ''output_min''\<rparr>"
      ex_const ex_pyfloat ex_hass ex_handle]
    resolver_orders_limits [of ex_keys ex_const ex_pyfloat ex_hass ex_handle]
    hi lo
  show ?thesis by (simp add: ex_keys_def)
qed

end
